theory Spec2Isabelle
  imports Complex_Main "HOL-Library.List_Lexorder" "HOL-Library.Char_ord"
begin

section \<open>Numbers, exceptions and the random source\<close>

text \<open>
  The backend (\<open>backend/server.py\<close>) computes with Python floats. The embedding uses
  exact rationals for them: every product, quotient and sum is the exact one, and
  \<open>round(x, 2)\<close> rounds the exact value to the nearest multiple of 1/100, a tie going to
  the even neighbour, as Python's correctly rounded \<open>round\<close> does on the exact value of
  a float.
\<close>

definition round_half_even :: "rat \<Rightarrow> int" where
  "round_half_even y =
     (let f = \<lfloor>y\<rfloor>;
          d = y - of_int f
      in if d < 1 / 2 then f
         else if 1 / 2 < d then f + 1
         else if even f then f else f + 1)"

definition py_round :: "rat \<Rightarrow> nat \<Rightarrow> rat" where
  "py_round x ndigits = of_int (round_half_even (x * 10 ^ ndigits)) / 10 ^ ndigits"

text \<open>\<open>int(x)\<close> on a float truncates towards zero.\<close>

definition py_int :: "rat \<Rightarrow> int" where
  "py_int x = (if 0 \<le> x then \<lfloor>x\<rfloor> else \<lceil>x\<rceil>)"

text \<open>
  Exceptions are values. \<open>HTTPException\<close> (FastAPI) is a subclass of \<open>Exception\<close> and
  carries a status code and a detail. A detail built by the f-string
  \<open>f"prefix{str(e)}"\<close> is kept as the prefix together with the exception \<open>e\<close> whose
  text it embeds.
\<close>

datatype exn =
    HTTPException nat detail
  | ZeroDivisionError
  | ValueError
  | IndexError
and detail =
    Detail string
  | DetailStr string exn

fun status_code :: "exn \<Rightarrow> nat option" where
  "status_code (HTTPException c d) = Some c"
| "status_code e = None"

definition bind_exn :: "exn + 'a \<Rightarrow> ('a \<Rightarrow> exn + 'b) \<Rightarrow> exn + 'b" where
  "bind_exn m f = (case m of Inl e \<Rightarrow> Inl e | Inr v \<Rightarrow> f v)"

text \<open>True division \<open>a / b\<close> raises \<open>ZeroDivisionError\<close> when \<open>b\<close> is zero.\<close>

definition py_div :: "rat \<Rightarrow> rat \<Rightarrow> exn + rat" where
  "py_div a b = (if b = 0 then Inl ZeroDivisionError else Inr (a / b))"

text \<open>
  The module \<open>random\<close> is an explicit random source: the sequence of values that
  successive calls of \<open>random.random()\<close> return, each in the half-open unit interval.
  Every library call consumes one of them: \<open>uniform(a, b)\<close> is \<open>a + (b - a) * random()\<close>,
  \<open>randint(a, b)\<close> is \<open>a + randbelow(b - a + 1)\<close> and \<open>choice(seq)\<close> is
  \<open>seq[randbelow(len(seq))]\<close>, where \<open>randbelow(n)\<close> is \<open>floor(random() * n)\<close>.
  \<open>choice\<close> raises on an empty sequence; the generator calls it on its constant,
  non-empty pools and on the population of 500 customers only.
\<close>

type_synonym rng = "nat \<Rightarrow> rat"


definition random :: "rng \<Rightarrow> rat \<times> rng" where
  "random g = (g 0, \<lambda>n. g (Suc n))"

definition uniform :: "rat \<Rightarrow> rat \<Rightarrow> rng \<Rightarrow> rat \<times> rng" where
  "uniform a b g = (case random g of (u, g') \<Rightarrow> (a + (b - a) * u, g'))"

definition randbelow :: "nat \<Rightarrow> rng \<Rightarrow> nat \<times> rng" where
  "randbelow n g = (case random g of (u, g') \<Rightarrow> (nat \<lfloor>u * of_nat n\<rfloor>, g'))"

definition randint :: "int \<Rightarrow> int \<Rightarrow> rng \<Rightarrow> int \<times> rng" where
  "randint a b g = (case randbelow (nat (b - a + 1)) g of (k, g') \<Rightarrow> (a + int k, g'))"

definition choice :: "'a list \<Rightarrow> rng \<Rightarrow> 'a \<times> rng" where
  "choice seq g = (case randbelow (length seq) g of (k, g') \<Rightarrow> (seq ! k, g'))"

section \<open>Guarded divisions of the metrics calculators\<close>

text \<open>
  \<open>get_sales_analytics\<close>:
  \<^verbatim>\<open>average_order_value = total_revenue / total_transactions if total_transactions > 0 else 0\<close>
\<close>

definition average_order_value_expr :: "rat \<Rightarrow> nat \<Rightarrow> exn + rat" where
  "average_order_value_expr total_revenue total_transactions =
     (if total_transactions > 0 then py_div total_revenue (of_nat total_transactions)
      else Inr 0)"

text \<open>
  \<^verbatim>\<open>revenue_growth = ((total_revenue - prev_revenue) / prev_revenue * 100) if prev_revenue > 0 else 0\<close>
\<close>

definition revenue_growth_expr :: "rat \<Rightarrow> rat \<Rightarrow> exn + rat" where
  "revenue_growth_expr total_revenue prev_revenue =
     (if prev_revenue > 0
      then bind_exn (py_div (total_revenue - prev_revenue) prev_revenue) (\<lambda>q. Inr (q * 100))
      else Inr 0)"

text \<open>
  \<^verbatim>\<open>((total_transactions - len(prev_data)) / len(prev_data) * 100) if len(prev_data) > 0 else 0\<close>
\<close>

definition transaction_growth_expr :: "nat \<Rightarrow> nat \<Rightarrow> exn + rat" where
  "transaction_growth_expr total_transactions len_prev_data =
     (if len_prev_data > 0
      then bind_exn (py_div (of_int (int total_transactions - int len_prev_data))
                            (of_nat len_prev_data)) (\<lambda>q. Inr (q * 100))
      else Inr 0)"

text \<open>
  \<open>get_customer_analytics\<close>:
  \<^verbatim>\<open>customer_retention_rate = (returning_customers / total_customers * 100) if total_customers > 0 else 0\<close>
\<close>

definition customer_retention_rate_expr :: "nat \<Rightarrow> nat \<Rightarrow> exn + rat" where
  "customer_retention_rate_expr returning_customers total_customers =
     (if total_customers > 0
      then bind_exn (py_div (of_nat returning_customers) (of_nat total_customers))
                    (\<lambda>q. Inr (q * 100))
      else Inr 0)"

section \<open>Text formatting\<close>

text \<open>Decimal rendering of a non-negative integer, as \<open>str\<close> and f-strings give it.\<close>

definition digit_char :: "nat \<Rightarrow> char" where
  "digit_char d = char_of (48 + d)"

fun str_nat :: "nat \<Rightarrow> string" where
  "str_nat n = (if n < 10 then [digit_char n] else str_nat (n div 10) @ [digit_char (n mod 10)])"

declare str_nat.simps [simp del]

text \<open>The format \<open>{n:0wd}\<close>: decimal digits, padded on the left with zeros to width \<open>w\<close>.\<close>

definition zero_pad :: "nat \<Rightarrow> nat \<Rightarrow> string" where
  "zero_pad w n = replicate (w - length (str_nat n)) CHR ''0'' @ str_nat n"

section \<open>Data model\<close>

text \<open>
  A stored transaction: the dictionary that \<open>SalesRecord(...).dict()\<close> gives, with the
  date as an ISO string. Its fields \<open>id\<close> (a fresh UUID) and \<open>created_at\<close> (the wall
  clock at construction) are left out; no operation below reads them.
\<close>

record sales_record =
  transaction_id :: string
  date :: string
  customer_id :: string
  customer_name :: string
  customer_segment :: string
  product_id :: string
  product_name :: string
  product_category :: string
  quantity :: int
  unit_price :: rat
  total_amount :: rat
  region :: string
  sales_rep :: string
  channel :: string

text \<open>The collection \<open>db.sales\<close>, in insertion order.\<close>

type_synonym store = "sales_record list"

text \<open>
  Catalog and customer dictionaries of \<open>generate_sample_data\<close>; the keys \<open>id\<close>, \<open>name\<close>
  and \<open>region\<close> carry a prefix here.
\<close>

record product =
  prod_id :: string
  prod_name :: string
  category :: string
  price_range :: "int \<times> int"

record customer =
  cust_id :: string
  cust_name :: string
  segment :: string
  cust_region :: string
  created_date :: string

text \<open>
  The \<open>Faker\<close> instance has a random state of its own; the model takes what its calls
  return: \<open>fake_name k\<close> is the result of the \<open>k\<close>-th call of \<open>fake.name()\<close>, and
  likewise for \<open>fake.company()\<close> and \<open>fake.date_between(...)\<close>.
\<close>

record faker =
  fake_name :: "nat \<Rightarrow> string"
  fake_company :: "nat \<Rightarrow> string"
  fake_date_between :: "nat \<Rightarrow> string"

text \<open>
  A \<open>datetime\<close> is a position on the UTC time line in microseconds, so that adding
  and subtracting \<open>timedelta\<close>s is integer arithmetic. The calendar conversions of the
  \<open>datetime\<close> library and of the database are parameters: \<open>month\<close> (1 to 12),
  \<open>weekday\<close> (Monday is 0), \<open>isoformat\<close>, \<open>fromisoformat\<close> (\<open>None\<close> when it raises
  \<open>ValueError\<close>) and \<open>month_year\<close>, the \<open>%Y-%m\<close> rendering that the aggregation stage
  \<open>$dateToString\<close> of \<open>$dateFromString\<close> gives for a stored date string.
\<close>

type_synonym datetime = int

record calendar =
  month :: "datetime \<Rightarrow> nat"
  weekday :: "datetime \<Rightarrow> nat"
  isoformat :: "datetime \<Rightarrow> string"
  fromisoformat :: "string \<Rightarrow> datetime option"
  month_year :: "string \<Rightarrow> string"

definition timedelta_days :: "int \<Rightarrow> int" where
  "timedelta_days n = n * 86400000000"

section \<open>The sample-data generator\<close>

definition products :: "product list" where
  "products =
    [\<lparr>prod_id = ''PROD001'', prod_name = ''CloudSync Pro'', category = ''Software'', price_range = (99, 299)\<rparr>,
     \<lparr>prod_id = ''PROD002'', prod_name = ''DataVault Enterprise'', category = ''Software'', price_range = (199, 799)\<rparr>,
     \<lparr>prod_id = ''PROD003'', prod_name = ''SmartAnalytics Suite'', category = ''Analytics'', price_range = (149, 499)\<rparr>,
     \<lparr>prod_id = ''PROD004'', prod_name = ''SecureShield Advanced'', category = ''Security'', price_range = (79, 249)\<rparr>,
     \<lparr>prod_id = ''PROD005'', prod_name = ''WorkFlow Optimizer'', category = ''Productivity'', price_range = (59, 199)\<rparr>,
     \<lparr>prod_id = ''PROD006'', prod_name = ''Mobile Connect API'', category = ''Integration'', price_range = (29, 99)\<rparr>,
     \<lparr>prod_id = ''PROD007'', prod_name = ''AI Assistant Premium'', category = ''AI/ML'', price_range = (199, 599)\<rparr>,
     \<lparr>prod_id = ''PROD008'', prod_name = ''Cloud Storage Plus'', category = ''Storage'', price_range = (19, 89)\<rparr>]"

definition regions :: "string list" where
  "regions = [''North America'', ''Europe'', ''Asia-Pacific'', ''Latin America'', ''Middle East & Africa'']"

definition channels :: "string list" where
  "channels = [''Online'', ''Retail'', ''Direct Sales'', ''Partner'']"

definition segments :: "string list" where
  "segments = [''Enterprise'', ''SMB'', ''Individual'']"

text \<open>The loop \<open>for i in range(500)\<close> that builds the customer population.\<close>

fun gen_customers :: "faker \<Rightarrow> nat list \<Rightarrow> rng \<Rightarrow> customer list \<times> rng" where
  "gen_customers fk [] g = ([], g)"
| "gen_customers fk (i # rest) g =
     (case choice segments g of (seg, g1) \<Rightarrow>
      case choice regions g1 of (reg, g2) \<Rightarrow>
      case gen_customers fk rest g2 of (cs, g3) \<Rightarrow>
        (\<lparr>cust_id = ''CUST'' @ zero_pad 4 (i + 1),
          cust_name = fake_company fk i,
          segment = seg,
          cust_region = reg,
          created_date = fake_date_between fk i\<rparr> # cs, g3))"

text \<open>
  The daily volume (the seasonal \<open>if\<close>/\<open>elif\<close>/\<open>else\<close> and the weekend effect):
  \<^verbatim>\<open>
  if month in [11, 12]:   base_transactions = random.randint(15, 35)
  elif month in [6, 7, 8]: base_transactions = random.randint(5, 15)
  else:                    base_transactions = random.randint(8, 20)
  if current_date.weekday() >= 5:
      base_transactions = int(base_transactions * 0.6)
  \<close>
\<close>

definition base_transactions :: "nat \<Rightarrow> nat \<Rightarrow> rng \<Rightarrow> int \<times> rng" where
  "base_transactions mth wday g =
     (case (if mth \<in> set [11, 12] then randint 15 35 g
            else if mth \<in> set [6, 7, 8] then randint 5 15 g
            else randint 8 20 g) of (drawn, g') \<Rightarrow>
        (if wday \<ge> 5 then py_int (of_int drawn * (6 / 10)) else drawn, g'))"

text \<open>
  Quantity, unit price and total of one transaction slot:
  \<^verbatim>\<open>
  quantity = random.randint(1, 10)
  unit_price = random.uniform(product["price_range"][0], product["price_range"][1])
  total_amount = quantity * unit_price
  if customer["segment"] == "Enterprise":   unit_price *= random.uniform(1.2, 1.8)
  elif customer["segment"] == "Individual": unit_price *= random.uniform(0.7, 0.9)
  total_amount = quantity * unit_price
  \<close>
  The first assignment to \<open>total_amount\<close> is overwritten by the second.
\<close>

definition transaction_amounts :: "customer \<Rightarrow> product \<Rightarrow> rng \<Rightarrow> (int \<times> rat \<times> rat) \<times> rng" where
  "transaction_amounts cust prd g0 =
     (case randint 1 10 g0 of (qty, g1) \<Rightarrow>
      case uniform (of_int (fst (price_range prd))) (of_int (snd (price_range prd))) g1 of
        (price, g2) \<Rightarrow>
      let amount = of_int qty * price in
      case (if segment cust = ''Enterprise''
            then (case uniform (12 / 10) (18 / 10) g2 of (f, g3) \<Rightarrow> (price * f, g3))
            else if segment cust = ''Individual''
            then (case uniform (7 / 10) (9 / 10) g2 of (f, g3) \<Rightarrow> (price * f, g3))
            else (price, g2)) of
        (price, g3) \<Rightarrow>
      let amount = of_int qty * price in
        ((qty, price, amount), g3))"

text \<open>
  One iteration of \<open>for _ in range(base_transactions)\<close>; \<open>n\<close> is \<open>len(sales_records)\<close>
  and \<open>current_date\<close> the ISO string of the day.
\<close>

definition gen_record ::
  "customer list \<Rightarrow> string list \<Rightarrow> string \<Rightarrow> nat \<Rightarrow> rng \<Rightarrow> sales_record \<times> rng" where
  "gen_record customers sales_reps current_date n g0 =
     (case choice customers g0 of (cust, g1) \<Rightarrow>
      case choice products g1 of (prd, g2) \<Rightarrow>
      case transaction_amounts cust prd g2 of ((qty, price, amount), g3) \<Rightarrow>
      case choice sales_reps g3 of (rep, g4) \<Rightarrow>
      case choice channels g4 of (chan, g5) \<Rightarrow>
        (\<lparr>transaction_id = ''TXN'' @ zero_pad 6 (n + 1),
          date = current_date,
          customer_id = cust_id cust,
          customer_name = cust_name cust,
          customer_segment = segment cust,
          product_id = prod_id prd,
          product_name = prod_name prd,
          product_category = category prd,
          quantity = qty,
          unit_price = py_round price 2,
          total_amount = py_round amount 2,
          region = cust_region cust,
          sales_rep = rep,
          channel = chan\<rparr>, g5))"

fun gen_slots ::
  "nat \<Rightarrow> customer list \<Rightarrow> string list \<Rightarrow> string \<Rightarrow> sales_record list \<Rightarrow> rng
     \<Rightarrow> sales_record list \<times> rng" where
  "gen_slots 0 customers sales_reps current_date sales_records g = (sales_records, g)"
| "gen_slots (Suc k) customers sales_reps current_date sales_records g =
     (case gen_record customers sales_reps current_date (length sales_records) g of
        (r, g') \<Rightarrow> gen_slots k customers sales_reps current_date (sales_records @ [r]) g')"

text \<open>The loop \<open>for day in range(730)\<close>.\<close>

fun gen_days ::
  "calendar \<Rightarrow> customer list \<Rightarrow> string list \<Rightarrow> datetime \<Rightarrow> nat list \<Rightarrow> sales_record list
     \<Rightarrow> rng \<Rightarrow> sales_record list \<times> rng" where
  "gen_days cal customers sales_reps start_date [] sales_records g = (sales_records, g)"
| "gen_days cal customers sales_reps start_date (day # rest) sales_records g =
     (let current_date = start_date + timedelta_days (int day) in
      case base_transactions (month cal current_date) (weekday cal current_date) g of
        (count, g1) \<Rightarrow>
      case gen_slots (nat count) customers sales_reps (isoformat cal current_date)
             sales_records g1 of
        (sales_records', g2) \<Rightarrow>
          gen_days cal customers sales_reps start_date rest sales_records' g2)"

text \<open>
  \<open>generate_sample_data\<close>: the response message, the collection afterwards and the
  random source afterwards. \<open>now\<close> is \<open>datetime.now(timezone.utc)\<close>.
\<close>

definition generate_sample_data ::
  "calendar \<Rightarrow> faker \<Rightarrow> datetime \<Rightarrow> store \<Rightarrow> rng \<Rightarrow> string \<times> store \<times> rng" where
  "generate_sample_data cal fk now db_sales g =
     (let existing_count = length db_sales in
      if existing_count > 0
      then (''Sample data already exists ('' @ str_nat existing_count @ '' records)'', db_sales, g)
      else
        let sales_reps = map (fake_name fk) [0..<20] in
        case gen_customers fk [0..<500] g of (customers, g1) \<Rightarrow>
        let start_date = now - timedelta_days 730 in
        case gen_days cal customers sales_reps start_date [0..<730] [] g1 of
          (sales_records, g2) \<Rightarrow>
            (''Generated '' @ str_nat (length sales_records) @ '' sales records successfully'',
             (if sales_records \<noteq> [] then db_sales @ sales_records else db_sales), g2))"

section \<open>Queries on the collection\<close>

text \<open>
  The query filter of \<open>db.sales.find\<close>: an optional date condition
  \<open>{"$gte": lo, "$lte": hi}\<close> and an optional exact region. Dates are stored and
  compared as strings, in the lexicographic order of their characters.
\<close>

record query_filter =
  qf_date :: "(string \<times> string) option"
  qf_region :: "string option"

definition matches :: "query_filter \<Rightarrow> sales_record \<Rightarrow> bool" where
  "matches qf r =
     ((case qf_date qf of None \<Rightarrow> True | Some (lo, hi) \<Rightarrow> lo \<le> date r \<and> date r \<le> hi)
      \<and> (case qf_region qf of None \<Rightarrow> True | Some x \<Rightarrow> region r = x))"

definition db_find :: "query_filter \<Rightarrow> store \<Rightarrow> sales_record list" where
  "db_find qf db_sales = filter (matches qf) db_sales"

text \<open>
  The stage \<open>$group\<close>: one group for each key, holding the first document with that key
  and the later ones, in the order the documents have in the collection.
\<close>

function group_by :: "('a \<Rightarrow> 'k) \<Rightarrow> 'a list \<Rightarrow> ('k \<times> 'a \<times> 'a list) list" where
  "group_by f [] = []"
| "group_by f (x # xs) =
     (f x, x, filter (\<lambda>y. f y = f x) xs) # group_by f (filter (\<lambda>y. f y \<noteq> f x) xs)"
  by pat_completeness auto
termination
  by (relation "measure (\<lambda>(f, xs). length xs)") (auto simp: less_Suc_eq_le)


section \<open>Sales analytics\<close>

record period_cmp =
  revenue_growth :: rat
  previous_revenue :: rat
  transaction_growth :: rat

record sales_analytics =
  total_revenue :: rat
  total_transactions :: nat
  average_order_value :: rat
  conversion_rate :: rat
  period_comparison :: period_cmp

text \<open>
  \<open>if start_date and end_date\<close>: both arguments are given and non-empty.
\<close>

definition date_range :: "string option \<Rightarrow> string option \<Rightarrow> (string \<times> string) option" where
  "date_range start_date end_date =
     (case start_date of
        None \<Rightarrow> None
      | Some s \<Rightarrow>
          (case end_date of
             None \<Rightarrow> None
           | Some e \<Rightarrow> if s \<noteq> [] \<and> e \<noteq> [] then Some (s, e) else None))"

text \<open>\<open>if region and region != "all"\<close>.\<close>

definition region_filter :: "string option \<Rightarrow> string option" where
  "region_filter region_arg =
     (case region_arg of
        None \<Rightarrow> None
      | Some x \<Rightarrow> if x \<noteq> [] \<and> x \<noteq> ''all'' then Some x else None)"

text \<open>The period comparison block of \<open>get_sales_analytics\<close>.\<close>

definition period_comparison_of ::
  "calendar \<Rightarrow> store \<Rightarrow> query_filter \<Rightarrow> (string \<times> string) option \<Rightarrow> rat \<Rightarrow> nat
     \<Rightarrow> exn + period_cmp" where
  "period_comparison_of cal db_sales qf given_range total_rev total_txn =
     (case given_range of
        None \<Rightarrow> Inr \<lparr>revenue_growth = 0, previous_revenue = 0, transaction_growth = 0\<rparr>
      | Some (start_date, end_date) \<Rightarrow>
          (case fromisoformat cal start_date of
             None \<Rightarrow> Inl ValueError
           | Some start_dt \<Rightarrow>
               (case fromisoformat cal end_date of
                  None \<Rightarrow> Inl ValueError
                | Some end_dt \<Rightarrow>
                    (let period_length = end_dt - start_dt;
                         prev_start = isoformat cal (start_dt - period_length);
                         prev_end = isoformat cal start_dt;
                         prev_query = qf\<lparr>qf_date := Some (prev_start, prev_end)\<rparr>;
                         prev_data = db_find prev_query db_sales;
                         prev_revenue = sum_list (map total_amount prev_data)
                     in bind_exn (revenue_growth_expr total_rev prev_revenue) (\<lambda>growth.
                        bind_exn (transaction_growth_expr total_txn (length prev_data)) (\<lambda>tgrowth.
                          Inr \<lparr>revenue_growth = py_round growth 2,
                               previous_revenue = py_round prev_revenue 2,
                               transaction_growth = tgrowth\<rparr>))))))"

text \<open>The body of the \<open>try\<close> block of \<open>get_sales_analytics\<close>.\<close>

definition sales_analytics_try ::
  "calendar \<Rightarrow> store \<Rightarrow> string option \<Rightarrow> string option \<Rightarrow> string option \<Rightarrow> rng
     \<Rightarrow> (exn + sales_analytics) \<times> rng" where
  "sales_analytics_try cal db_sales start_date end_date region_arg g =
     (let qf = \<lparr>qf_date = date_range start_date end_date,
                qf_region = region_filter region_arg\<rparr>;
          sales_data = db_find qf db_sales
      in if sales_data = []
         then (Inl (HTTPException 404 (Detail ''No sales data found'')), g)
         else
           (let total_rev = sum_list (map total_amount sales_data);
                total_txn = length sales_data
            in case average_order_value_expr total_rev total_txn of
                 Inl e \<Rightarrow> (Inl e, g)
               | Inr aov \<Rightarrow>
                   (case uniform (25 / 10) (85 / 10) g of
                      (conv, g') \<Rightarrow>
                        (bind_exn (period_comparison_of cal db_sales qf
                                     (date_range start_date end_date) total_rev total_txn)
                           (\<lambda>pc. Inr \<lparr>total_revenue = py_round total_rev 2,
                                       total_transactions = total_txn,
                                       average_order_value = py_round aov 2,
                                       conversion_rate = py_round conv 2,
                                       period_comparison = pc\<rparr>), g'))))"

text \<open>
  \<open>get_sales_analytics\<close>: the handler \<open>except Exception as e\<close> catches whatever the
  block raises, the \<open>HTTPException\<close> of the block included, and raises
  \<open>HTTPException(status_code=500, ...)\<close> in its place.
\<close>

definition get_sales_analytics ::
  "calendar \<Rightarrow> store \<Rightarrow> string option \<Rightarrow> string option \<Rightarrow> string option \<Rightarrow> rng
     \<Rightarrow> (exn + sales_analytics) \<times> rng" where
  "get_sales_analytics cal db_sales start_date end_date region_arg g =
     (case sales_analytics_try cal db_sales start_date end_date region_arg g of
        (Inl e, g') \<Rightarrow>
          (Inl (HTTPException 500 (DetailStr ''Error calculating sales analytics: '' e)), g')
      | (Inr res, g') \<Rightarrow> (Inr res, g'))"

section \<open>Customer analytics\<close>

text \<open>A row of the customer pipeline (grouped by \<open>customer_id\<close>).\<close>

record customer_group =
  cg_id :: string
  cg_name :: string
  cg_segment :: string
  cg_total_revenue :: rat
  transaction_count :: nat
  first_purchase :: string
  last_purchase :: string

definition customer_pipeline :: "store \<Rightarrow> customer_group list" where
  "customer_pipeline db_sales =
     map (\<lambda>(k, r, rs).
            \<lparr>cg_id = k,
             cg_name = customer_name r,
             cg_segment = customer_segment r,
             cg_total_revenue = sum_list (map total_amount (r # rs)),
             transaction_count = length (r # rs),
             first_purchase = fold min (map date rs) (date r),
             last_purchase = fold max (map date rs) (date r)\<rparr>)
         (group_by customer_id db_sales)"

record top_customer =
  tc_id :: string
  tc_name :: string
  tc_revenue :: rat
  tc_transactions :: nat

record customer_analytics =
  total_customers :: nat
  returning_customers :: nat
  customer_retention_rate :: rat
  top_customers :: "top_customer list"
  segment_breakdown :: "(string \<times> nat \<times> rat) list"



section \<open>Seasonal trends\<close>

text \<open>A row of the monthly pipeline: grouped by month key, sorted by it ascending.\<close>

record monthly_group =
  mg_id :: string
  mg_revenue :: rat
  mg_transactions :: nat

definition monthly_pipeline :: "calendar \<Rightarrow> store \<Rightarrow> monthly_group list" where
  "monthly_pipeline cal db_sales =
     sort_key mg_id
       (map (\<lambda>(k, r, rs).
               \<lparr>mg_id = k,
                mg_revenue = sum_list (map total_amount (r # rs)),
                mg_transactions = length (r # rs)\<rparr>)
            (group_by (\<lambda>r. month_year cal (date r)) db_sales))"















section \<open>Error taxonomy of the specification\<close>

text \<open>
  The specification names two error conditions of the sales analytics and says how
  the transport answers them: \<open>NoDataError\<close> as "not found" and \<open>InvalidRangeError\<close>
  as "bad request". On the exceptions of the code these are the status codes 404 and
  400.
\<close>

definition is_NoDataError :: "exn \<Rightarrow> bool" where
  "is_NoDataError e = (status_code e = Some 404)"

definition is_InvalidRangeError :: "exn \<Rightarrow> bool" where
  "is_InvalidRangeError e = (status_code e = Some 400)"

definition raises :: "(exn \<Rightarrow> bool) \<Rightarrow> exn + 'a \<Rightarrow> bool" where
  "raises P r = (case r of Inl e \<Rightarrow> P e | Inr v \<Rightarrow> False)"

section \<open>Sample inputs\<close>

text \<open>A random source that yields the listed values and then zeros.\<close>

definition draws :: "rat list \<Rightarrow> rng" where
  "draws xs n = (if n < length xs then xs ! n else 0)"


definition sample_sale :: "string \<Rightarrow> string \<Rightarrow> string \<Rightarrow> rat \<Rightarrow> sales_record" where
  "sample_sale cid d reg amt =
     \<lparr>transaction_id = ''TXN000001'', date = d, customer_id = cid, customer_name = ''Acme'',
      customer_segment = ''SMB'', product_id = ''PROD001'', product_name = ''CloudSync Pro'',
      product_category = ''Software'', quantity = 1, unit_price = amt, total_amount = amt,
      region = reg, sales_rep = ''Ann'', channel = ''Online''\<rparr>"

definition sample_store :: store where
  "sample_store =
     [sample_sale ''CUST0001'' ''2024-01-15T00:00:00+00:00'' ''North America'' 100,
      sample_sale ''CUST0002'' ''2024-02-15T00:00:00+00:00'' ''North America'' 100,
      sample_sale ''CUST0003'' ''2024-03-10T00:00:00+00:00'' ''North America'' 150,
      sample_sale ''CUST0001'' ''2024-03-15T00:00:00+00:00'' ''North America'' 250]"

text \<open>
  A calendar whose month key is the first seven characters of the stored date string;
  the other conversions are placeholders.
\<close>

definition sample_calendar :: calendar where
  "sample_calendar =
     \<lparr>month = (\<lambda>t. 1), weekday = (\<lambda>t. 0), isoformat = (\<lambda>t. []),
      fromisoformat = (\<lambda>s. None), month_year = take 7\<rparr>"

definition sample_faker :: faker where
  "sample_faker =
     \<lparr>fake_name = (\<lambda>k. ''Ann''), fake_company = (\<lambda>k. ''Acme''),
      fake_date_between = (\<lambda>k. ''2024-01-01'')\<rparr>"

text \<open>
  Draws for one transaction slot: customer 0, product 0 (\<open>PROD001\<close>, prices 99 to 299),
  quantity \<open>1 + floor(0.95 * 10) = 10\<close>, unit price \<open>99 + 200 * 0.00502 = 100.004\<close>,
  then sales representative 0 and channel 0.
\<close>

definition sample_draws :: rng where
  "sample_draws = draws [0, 0, 95 / 100, 502 / 100000, 0, 0]"


text \<open>What the analytics return on \<open>sample_store\<close>.\<close>

definition sample_analytics :: sales_analytics where
  "sample_analytics =
     \<lparr>total_revenue = 600, total_transactions = 4, average_order_value = 150,
      conversion_rate = 11 / 2,
      period_comparison = \<lparr>revenue_growth = 0, previous_revenue = 0, transaction_growth = 0\<rparr>\<rparr>"


section \<open>Rounding and the random source: basic facts\<close>

lemma round_half_even_lower: "of_int k \<le> y \<Longrightarrow> k \<le> round_half_even y"
proof -
  assume "of_int k \<le> y"
  then have "k \<le> \<lfloor>y\<rfloor>" by (simp add: le_floor_iff)
  then show ?thesis by (simp add: round_half_even_def Let_def)
qed

lemma round_half_even_upper: "y \<le> of_int k \<Longrightarrow> round_half_even y \<le> k"
proof -
  assume a: "y \<le> of_int k"
  have "\<lfloor>y\<rfloor> \<le> \<lfloor>(of_int k :: rat)\<rfloor>" using a by (rule floor_mono)
  then have fl: "\<lfloor>y\<rfloor> \<le> k" by simp
  show ?thesis
  proof (cases "\<lfloor>y\<rfloor> = k")
    case True
    then have "y - of_int \<lfloor>y\<rfloor> \<le> 0" using a by simp
    then have "y - of_int \<lfloor>y\<rfloor> < 1 / 2" by linarith
    then show ?thesis using True by (simp add: round_half_even_def Let_def)
  next
    case False
    then have "\<lfloor>y\<rfloor> + 1 \<le> k" using fl by linarith
    then show ?thesis using fl by (simp add: round_half_even_def Let_def)
  qed
qed


lemma py_round_lower: "of_int k \<le> x * 10 ^ n \<Longrightarrow> of_int k / 10 ^ n \<le> py_round x n"
  using round_half_even_lower [of k "x * 10 ^ n"]
  by (simp add: py_round_def divide_le_cancel)

lemma py_round_upper: "x * 10 ^ n \<le> of_int k \<Longrightarrow> py_round x n \<le> of_int k / 10 ^ n"
  using round_half_even_upper [of "x * 10 ^ n" k]
  by (simp add: py_round_def divide_le_cancel)


lemma randbelow_less: "0 \<le> g 0 \<Longrightarrow> g 0 < 1 \<Longrightarrow> 0 < n \<Longrightarrow> fst (randbelow n g) < n"
proof -
  assume a: "0 \<le> g 0" "g 0 < 1" "0 < n"
  have "g 0 * of_nat n < of_nat n" using a by simp
  then have "\<lfloor>g 0 * of_nat n\<rfloor> < int n" by (simp add: floor_less_iff)
  then have "nat \<lfloor>g 0 * of_nat n\<rfloor> < n" using a(3) by linarith
  then show ?thesis by (simp add: randbelow_def random_def)
qed

lemma randint_range:
  assumes "0 \<le> g 0" "g 0 < 1" "a \<le> b"
  shows "a \<le> fst (randint a b g) \<and> fst (randint a b g) \<le> b"
proof -
  have "fst (randbelow (nat (b - a + 1)) g) < nat (b - a + 1)"
    using assms by (intro randbelow_less) auto
  then show ?thesis by (auto simp: randint_def split: prod.splits)
qed

lemma uniform_range:
  assumes "0 \<le> g 0" "g 0 < 1" "a \<le> b"
  shows "a \<le> fst (uniform a b g) \<and> fst (uniform a b g) \<le> b"
proof -
  have "0 \<le> (b - a) * g 0" using assms by simp
  moreover have "(b - a) * g 0 \<le> (b - a) * 1" using assms by (intro mult_left_mono) auto
  ultimately show ?thesis by (simp add: uniform_def random_def)
qed

text \<open>Every value of the range is drawn for some value of the random source.\<close>

lemma randint_onto:
  assumes "a \<le> k" and "k \<le> b"
  shows "0 \<le> of_int (k - a) / (of_int (b - a + 1) :: rat)
       \<and> of_int (k - a) / (of_int (b - a + 1) :: rat) < 1
       \<and> fst (randint a b (\<lambda>n. of_int (k - a) / of_int (b - a + 1))) = k"
proof -
  have n: "(0 :: rat) < of_int (b - a + 1)" using assms by simp
  have u: "of_int (k - a) / (of_int (b - a + 1) :: rat) * of_nat (nat (b - a + 1)) = of_int (k - a)"
    using assms n by simp
  have "of_int (k - a) < (of_int (b - a + 1) :: rat)" using assms by simp
  then have lt: "of_int (k - a) / (of_int (b - a + 1) :: rat) < 1" using n by simp
  have ge: "0 \<le> of_int (k - a) / (of_int (b - a + 1) :: rat)" using assms n by simp
  have "fst (randint a b (\<lambda>n. of_int (k - a) / of_int (b - a + 1))) = a + int (nat (k - a))"
    by (simp only: randint_def randbelow_def random_def prod.case fst_conv u floor_of_int)
  then show ?thesis using assms ge lt by simp
qed

section \<open>Properties of the guarded divisions\<close>

text \<open>
  Claim C7. Every division of the metrics calculators is guarded: the average order
  value with a transaction count of 0, the revenue growth with a previous revenue of 0,
  the transaction growth with no previous transaction and the retention rate with no
  customer all evaluate to 0, and none of the four expressions raises, whatever its
  arguments are.
\<close>

theorem division_guards:
  "average_order_value_expr total_rev 0 = Inr 0
   \<and> revenue_growth_expr total_rev 0 = Inr 0
   \<and> transaction_growth_expr total_txn 0 = Inr 0
   \<and> customer_retention_rate_expr returning 0 = Inr 0
   \<and> (\<exists>v. average_order_value_expr r n = Inr v)
   \<and> (\<exists>v. revenue_growth_expr r p = Inr v)
   \<and> (\<exists>v. transaction_growth_expr n m = Inr v)
   \<and> (\<exists>v. customer_retention_rate_expr n m = Inr v)"
  by (simp add: average_order_value_expr_def revenue_growth_expr_def transaction_growth_expr_def
      customer_retention_rate_expr_def py_div_def bind_exn_def)

section \<open>Properties of the generator\<close>



text \<open>The population has one customer for each index of the loop: 500 in the generator.\<close>

lemma gen_customers_length: "length (fst (gen_customers fk is g)) = length is"
proof (induction "is" arbitrary: g)
  case Nil
  then show ?case by simp
next
  case (Cons i rest)
  obtain seg g1 where a: "choice segments g = (seg, g1)" by (cases "choice segments g")
  obtain reg g2 where b: "choice regions g1 = (reg, g2)" by (cases "choice regions g1")
  obtain cs g3 where c: "gen_customers fk rest g2 = (cs, g3)" by (cases "gen_customers fk rest g2")
  have "length cs = length rest" using Cons [of g2] c by simp
  then show ?case by (simp add: a b c)
qed









text \<open>
  Claim C6. For a draw in the unit interval, the number drawn for a day comes from
  \<open>randint(15, 35)\<close> in November and December, from \<open>randint(5, 15)\<close> in June, July and
  August and from \<open>randint(8, 20)\<close> in any other month, and lies in that range; on a
  weekend (\<open>weekday()\<close> at least 5, that is Saturday or Sunday) the day's count is the
  number drawn times 0.6, rounded down, and otherwise the number drawn itself.
\<close>

theorem base_transactions_ranges:
  assumes "0 \<le> g 0" and "g 0 < 1"
  shows "\<exists>drawn.
     (if mth = 11 \<or> mth = 12
      then drawn = fst (randint 15 35 g) \<and> 15 \<le> drawn \<and> drawn \<le> 35
      else if mth = 6 \<or> mth = 7 \<or> mth = 8
      then drawn = fst (randint 5 15 g) \<and> 5 \<le> drawn \<and> drawn \<le> 15
      else drawn = fst (randint 8 20 g) \<and> 8 \<le> drawn \<and> drawn \<le> 20)
     \<and> fst (base_transactions mth wday g)
         = (if 5 \<le> wday then \<lfloor>of_int drawn * (6 / 10 :: rat)\<rfloor> else drawn)"
proof -
  have a: "15 \<le> fst (randint 15 35 g) \<and> fst (randint 15 35 g) \<le> 35"
    using assms by (intro randint_range) auto
  have b: "5 \<le> fst (randint 5 15 g) \<and> fst (randint 5 15 g) \<le> 15"
    using assms by (intro randint_range) auto
  have c: "8 \<le> fst (randint 8 20 g) \<and> fst (randint 8 20 g) \<le> 20"
    using assms by (intro randint_range) auto
  show ?thesis
    using a b c
    by (auto simp: base_transactions_def py_int_def split: prod.splits)
qed

theorem base_transactions_ranges_witness:
  "(0 :: rat) \<le> 1 / 2 \<and> (1 / 2 :: rat) < 1
   \<and> fst (base_transactions 12 6 (\<lambda>n. 1 / 2)) = 15
   \<and> fst (base_transactions 7 2 (\<lambda>n. 1 / 2)) = 10"
proof -
  have e: "fst (randint 15 35 (\<lambda>n. 1 / 2)) = 25" "fst (randint 5 15 (\<lambda>n. 1 / 2)) = 10"
    by code_simp+
  have f: "\<lfloor>25 * (6 / 10 :: rat)\<rfloor> = 15" by code_simp
  show ?thesis
    using base_transactions_ranges [of "\<lambda>n. 1 / 2" 12 6]
      base_transactions_ranges [of "\<lambda>n. 1 / 2" 7 2] e f
    by simp
qed

text \<open>
  Claim C8. On a collection that holds at least one transaction, the generation
  returns the message with the number of records already there, and leaves the
  collection and the random source as they were: nothing is written.
\<close>

theorem generate_skips_nonempty_store:
  "db_sales \<noteq> [] \<Longrightarrow>
   generate_sample_data cal fk now db_sales g =
     (''Sample data already exists ('' @ str_nat (length db_sales) @ '' records)'', db_sales, g)"
  by (simp add: generate_sample_data_def Let_def)

theorem generate_skips_nonempty_store_witness:
  "sample_store \<noteq> []
   \<and> generate_sample_data sample_calendar sample_faker 0 sample_store sample_draws
       = (''Sample data already exists (4 records)'', sample_store, sample_draws)"
proof -
  have h: "sample_store \<noteq> []" by (simp add: sample_store_def)
  have l: "str_nat (length sample_store) = ''4''" by code_simp
  from generate_skips_nonempty_store [OF h, of sample_calendar sample_faker 0 sample_draws] h l
  show ?thesis by simp
qed

section \<open>Properties of the grouping stage\<close>

lemma group_by_keys: "fst ` set (group_by f xs) \<subseteq> f ` set xs"
proof (induction f xs rule: group_by.induct)
  case (1 f)
  then show ?case by simp
next
  case (2 f x xs)
  then show ?case by auto
qed


text \<open>A group holds exactly the documents with its key, in collection order.\<close>

lemma group_by_members:
  "(k, x, ys) \<in> set (group_by f xs) \<Longrightarrow> x # ys = filter (\<lambda>y. f y = k) xs"
proof (induction f xs rule: group_by.induct)
  case (1 f)
  then show ?case by simp
next
  case (2 f x' xs)
  show ?case
  proof (cases "(k, x, ys) = (f x', x', filter (\<lambda>y. f y = f x') xs)")
    case True
    then show ?thesis by simp
  next
    case False
    then have m: "(k, x, ys) \<in> set (group_by f (filter (\<lambda>y. f y \<noteq> f x') xs))"
      using 2(2) by auto
    then have "k \<in> fst ` set (group_by f (filter (\<lambda>y. f y \<noteq> f x') xs))" by force
    then have ne: "k \<noteq> f x'"
      using group_by_keys [of f "filter (\<lambda>y. f y \<noteq> f x') xs"] by auto
    have "x # ys = filter (\<lambda>y. f y = k) (filter (\<lambda>y. f y \<noteq> f x') xs)"
      using 2(1) m by simp
    also have "\<dots> = filter (\<lambda>y. f y = k) xs"
      using ne by (auto intro: filter_cong)
    finally show ?thesis using ne by auto
  qed
qed

lemma customer_pipeline_rows:
  assumes "c \<in> set (customer_pipeline db_sales)"
  shows "transaction_count c = length (filter (\<lambda>r. customer_id r = cg_id c) db_sales)
       \<and> cg_total_revenue c
           = sum_list (map total_amount (filter (\<lambda>r. customer_id r = cg_id c) db_sales))"
proof -
  obtain k x ys where m: "(k, x, ys) \<in> set (group_by customer_id db_sales)"
      and c: "c = \<lparr>cg_id = k, cg_name = customer_name x, cg_segment = customer_segment x,
             cg_total_revenue = sum_list (map total_amount (x # ys)),
             transaction_count = length (x # ys),
             first_purchase = fold min (map date ys) (date x),
             last_purchase = fold max (map date ys) (date x)\<rparr>"
    using assms by (auto simp: customer_pipeline_def)
  have "x # ys = filter (\<lambda>r. customer_id r = k) db_sales" using m by (rule group_by_members)
  then show ?thesis unfolding c by (simp del: sum_list.Cons list.map length_Cons)
qed

lemma monthly_pipeline_rows:
  assumes "item \<in> set (monthly_pipeline cal db_sales)"
  shows "mg_revenue item
           = sum_list (map total_amount
               (filter (\<lambda>r. month_year cal (date r) = mg_id item) db_sales))
       \<and> mg_transactions item
           = length (filter (\<lambda>r. month_year cal (date r) = mg_id item) db_sales)"
proof -
  obtain k x ys where m: "(k, x, ys) \<in> set (group_by (\<lambda>r. month_year cal (date r)) db_sales)"
      and c: "item = \<lparr>mg_id = k, mg_revenue = sum_list (map total_amount (x # ys)),
                mg_transactions = length (x # ys)\<rparr>"
    using assms by (auto simp: monthly_pipeline_def)
  have "x # ys = filter (\<lambda>r. month_year cal (date r) = k) db_sales"
    using m by (rule group_by_members)
  then show ?thesis unfolding c by (simp del: sum_list.Cons list.map length_Cons)
qed



section \<open>Properties of the sales analytics\<close>

text \<open>
  When the filter matches no document, the \<open>HTTPException\<close> with status 404 is raised
  inside the \<open>try\<close> block, caught by its handler and replaced by one with status 500.
\<close>

lemma no_data_path:
  "db_find \<lparr>qf_date = date_range start_date end_date, qf_region = region_filter region_arg\<rparr>
     db_sales = [] \<Longrightarrow>
   get_sales_analytics cal db_sales start_date end_date region_arg g =
     (Inl (HTTPException 500 (DetailStr ''Error calculating sales analytics: ''
             (HTTPException 404 (Detail ''No sales data found'')))), g)"
  by (simp add: get_sales_analytics_def sales_analytics_try_def Let_def)

text \<open>
  Claim C2 says that an empty filtered set is signalled as a distinct "no data"
  condition, answered as "not found", not as a generic internal failure. On
  \<open>sample_store\<close>, whose records are all in North America, the region filter
  \<open>Europe\<close> matches nothing, and the operation ends with the status 500 that wraps
  the 404: what the caller receives is the internal error, not the no-data condition.
\<close>

theorem empty_region_is_internal_error:
  "get_sales_analytics cal sample_store None None (Some ''Europe'') g =
     (Inl (HTTPException 500 (DetailStr ''Error calculating sales analytics: ''
             (HTTPException 404 (Detail ''No sales data found'')))), g)
   \<and> \<not> raises is_NoDataError
         (fst (get_sales_analytics cal sample_store None None (Some ''Europe'') g))"
proof -
  have "db_find \<lparr>qf_date = date_range None None, qf_region = region_filter (Some ''Europe'')\<rparr>
          sample_store = []"
    by (simp add: db_find_def matches_def date_range_def region_filter_def sample_store_def
        sample_sale_def)
  then show ?thesis
    by (simp add: no_data_path raises_def is_NoDataError_def)
qed

lemma inverted_range_matches_nothing:
  assumes "e < s"
  shows "db_find \<lparr>qf_date = Some (s, e), qf_region = reg\<rparr> db_sales = []"
proof -
  have "\<not> matches \<lparr>qf_date = Some (s, e), qf_region = reg\<rparr> r" for r
    using assms by (auto simp: matches_def)
  then show ?thesis by (simp add: db_find_def filter_empty_conv)
qed

text \<open>
  Claim C3, as stated: an inverted date range is rejected with an
  \<open>InvalidRangeError\<close> ("bad request"). The code has no such check; on the range from
  \<open>2024-03-31\<close> back to \<open>2024-01-01\<close> the operation does not end with that error.
\<close>

theorem inverted_range_counterexample:
  "fst (get_sales_analytics sample_calendar sample_store
          (Some ''2024-03-31'') (Some ''2024-01-01'') None sample_draws)
     = Inl (HTTPException 500 (DetailStr ''Error calculating sales analytics: ''
              (HTTPException 404 (Detail ''No sales data found''))))
   \<and> \<not> raises is_InvalidRangeError
         (fst (get_sales_analytics sample_calendar sample_store
                 (Some ''2024-03-31'') (Some ''2024-01-01'') None sample_draws))"
proof -
  have "(''2024-01-01'' :: string) < ''2024-03-31''" by code_simp
  then have "db_find \<lparr>qf_date = date_range (Some ''2024-03-31'') (Some ''2024-01-01''),
                      qf_region = region_filter None\<rparr> sample_store = []"
    by (simp add: date_range_def inverted_range_matches_nothing)
  then show ?thesis
    by (simp add: no_data_path raises_def is_InvalidRangeError_def)
qed

text \<open>
  Claim C3, amended: when the end date is non-empty and precedes the start date in
  string order, no document satisfies the date condition, so nothing is computed over
  the window: the operation takes the empty-data path and ends with an error, without
  drawing from the random source.
\<close>

theorem inverted_range_finds_nothing:
  assumes "end_date \<noteq> []" and "end_date < start_date"
  shows "db_find \<lparr>qf_date = date_range (Some start_date) (Some end_date),
                  qf_region = region_filter region_arg\<rparr> db_sales = []
       \<and> (\<exists>err. fst (get_sales_analytics cal db_sales (Some start_date) (Some end_date)
                        region_arg g) = Inl err)
       \<and> snd (get_sales_analytics cal db_sales (Some start_date) (Some end_date) region_arg g) = g"
proof -
  have s: "start_date \<noteq> []" using assms(2) by auto
  have "db_find \<lparr>qf_date = date_range (Some start_date) (Some end_date),
                  qf_region = region_filter region_arg\<rparr> db_sales = []"
    using assms s by (simp add: date_range_def inverted_range_matches_nothing)
  then show ?thesis by (simp add: no_data_path)
qed

theorem inverted_range_finds_nothing_witness:
  "(''2024-01-01'' :: string) \<noteq> [] \<and> (''2024-01-01'' :: string) < ''2024-03-31''
   \<and> db_find \<lparr>qf_date = date_range (Some ''2024-03-31'') (Some ''2024-01-01''),
               qf_region = region_filter None\<rparr> sample_store = []
   \<and> (\<exists>err. fst (get_sales_analytics sample_calendar sample_store (Some ''2024-03-31'')
                    (Some ''2024-01-01'') None sample_draws) = Inl err)
   \<and> snd (get_sales_analytics sample_calendar sample_store (Some ''2024-03-31'')
                    (Some ''2024-01-01'') None sample_draws) = sample_draws"
proof -
  have h1: "(''2024-01-01'' :: string) \<noteq> []" by simp
  have h2: "(''2024-01-01'' :: string) < ''2024-03-31''" by code_simp
  from inverted_range_finds_nothing [OF h1 h2, of None sample_store sample_calendar sample_draws]
    h1 h2
  show ?thesis by simp
qed

lemma conversion_rate_value:
  assumes "fst (get_sales_analytics cal db_sales start_date end_date region_arg g) = Inr res"
  shows "conversion_rate res = py_round (fst (uniform (25 / 10) (85 / 10) g)) 2"
  using assms
  by (auto simp: get_sales_analytics_def sales_analytics_try_def Let_def bind_exn_def
      split: if_splits sum.splits prod.splits)

text \<open>
  Claim C10. The conversion rate of a result is the rounded value of
  \<open>uniform(2.5, 8.5)\<close> on the next value of the random source: two invocations that
  start from the same random source and return a result report the same conversion
  rate, whatever calendars, collections and filters they are given; the rate lies
  between 2.5 and 8.5; and on the same collection the random sources \<open>0, 0, ...\<close> and
  \<open>1/2, 1/2, ...\<close> give the different rates 2.5 and 5.5.
\<close>

theorem conversion_rate_independent_of_data:
  assumes "0 \<le> g 0" and "g 0 < 1"
    and "fst (get_sales_analytics cal1 db1 start1 end1 region1 g) = Inr res1"
    and "fst (get_sales_analytics cal2 db2 start2 end2 region2 g) = Inr res2"
  shows "conversion_rate res1 = conversion_rate res2
       \<and> conversion_rate res1 = py_round (25 / 10 + (85 / 10 - 25 / 10) * g 0) 2
       \<and> 25 / 10 \<le> conversion_rate res1 \<and> conversion_rate res1 \<le> 85 / 10
       \<and> map_sum id conversion_rate
           (fst (get_sales_analytics sample_calendar sample_store None None None (\<lambda>n. 0)))
           = Inr (25 / 10)
       \<and> map_sum id conversion_rate
           (fst (get_sales_analytics sample_calendar sample_store None None None (\<lambda>n. 1 / 2)))
           = Inr (55 / 10)"
proof -
  let ?u = "fst (uniform (25 / 10) (85 / 10) g)"
  have r1: "conversion_rate res1 = py_round ?u 2" using assms(3) by (rule conversion_rate_value)
  have r2: "conversion_rate res2 = py_round ?u 2" using assms(4) by (rule conversion_rate_value)
  have u: "25 / 10 \<le> ?u \<and> ?u \<le> 85 / 10"
    using assms(1,2) by (intro uniform_range) auto
  have "of_int 250 \<le> ?u * 10 ^ 2" using u by simp
  then have lo: "of_int 250 / 10 ^ 2 \<le> py_round ?u 2" by (rule py_round_lower)
  have "?u * 10 ^ 2 \<le> of_int 850" using u by simp
  then have hi: "py_round ?u 2 \<le> of_int 850 / 10 ^ 2" by (rule py_round_upper)
  have c1: "map_sum id conversion_rate
           (fst (get_sales_analytics sample_calendar sample_store None None None (\<lambda>n. 0)))
           = Inr (25 / 10)" by code_simp
  have c2: "map_sum id conversion_rate
           (fst (get_sales_analytics sample_calendar sample_store None None None (\<lambda>n. 1 / 2)))
           = Inr (55 / 10)" by code_simp
  show ?thesis using r1 r2 lo hi c1 c2 by (simp add: uniform_def random_def)
qed

theorem conversion_rate_independent_of_data_witness:
  "(0 :: rat) \<le> 1 / 2 \<and> (1 / 2 :: rat) < 1
   \<and> fst (get_sales_analytics sample_calendar sample_store None None None (\<lambda>n. 1 / 2))
       = Inr sample_analytics
   \<and> fst (get_sales_analytics sample_calendar (take 1 sample_store) None None None (\<lambda>n. 1 / 2))
       = Inr (sample_analytics\<lparr>total_revenue := 100, total_transactions := 1,
                average_order_value := 100\<rparr>)
   \<and> conversion_rate sample_analytics
       = conversion_rate (sample_analytics\<lparr>total_revenue := 100, total_transactions := 1,
                average_order_value := 100\<rparr>)
   \<and> 25 / 10 \<le> conversion_rate sample_analytics \<and> conversion_rate sample_analytics \<le> 85 / 10"
proof -
  have h1: "(0 :: rat) \<le> (\<lambda>n :: nat. 1 / 2) 0" and h2: "(\<lambda>n :: nat. 1 / 2 :: rat) 0 < 1" by simp_all
  have h3: "fst (get_sales_analytics sample_calendar sample_store None None None (\<lambda>n. 1 / 2))
       = Inr sample_analytics" by code_simp
  have h4: "fst (get_sales_analytics sample_calendar (take 1 sample_store) None None None (\<lambda>n. 1 / 2))
       = Inr (sample_analytics\<lparr>total_revenue := 100, total_transactions := 1,
                average_order_value := 100\<rparr>)" by code_simp
  from conversion_rate_independent_of_data [OF h1 h2 h3 h4] h3 h4
  show ?thesis by simp
qed

section \<open>Properties of the customer analytics\<close>



section \<open>Properties of the seasonal trends\<close>





end
